theory Spec2Isabelle
  imports Main "HOL-Library.Word"
begin

section \<open>Credentials of the YDB driver: the static and the IAM auth service\<close>

text \<open>
  The development embeds the credentials module of the driver: the function
  \<open>makeCredentialsMetadata\<close>, the class \<open>TokenAuthService\<close> and the class
  \<open>IamAuthService\<close> with its methods \<open>getJwtRequest\<close>, \<open>expired\<close>,
  \<open>sendTokenRequest\<close>, \<open>updateToken\<close> and \<open>getAuthMetadata\<close>.

  Conventions of the embedding:
  \<^item> a luxon \<open>DateTime\<close> is its epoch value in milliseconds, an \<open>int\<close>; every call of
    \<open>DateTime.utc()\<close> is a clock reading supplied by the environment;
    \<open>a.diff(b).valueOf()\<close> is the difference of the two epoch values;
  \<^item> a thrown error or a rejected promise is the left injection of a sum;
  \<^item> the assignments to \<open>this.token\<close> and \<open>this.tokenTimestamp\<close> are record updates of
    the service, which every operation returns;
  \<^item> what the service hands to \<open>this.api.create\<close> is logged, so that network calls can
    be counted;
  \<^item> \<open>grpc.Metadata.add\<close> checks the value it is given and throws on an illegal one;
    that check is part of the embedding. \<open>jwt.sign\<close> returns normally: what it does
    with a key that it cannot use is not part of the embedding.
\<close>

subsection \<open>Data\<close>

type_synonym Buffer = "8 word list"

text \<open>\<open>grpc.Metadata\<close>: the entries added to it, in order.\<close>

type_synonym Metadata = "(string \<times> string) list"

text \<open>The reason with which \<open>this.api.create\<close> rejects; it is passed on unchanged.\<close>

type_synonym grpc_error = string

text \<open>
  The ways a call can fail. \<open>Timeout\<close> is the rejection of the timer promise of
  \<open>sendTokenRequest\<close> (\<open>setTimeout(reject, ...)\<close>, which rejects without a reason),
  \<open>EmptyToken\<close> is \<open>Error('Received empty token from IAM!')\<close>, \<open>TransportError\<close>
  is a rejection of \<open>this.api.create\<close> or an exception of the \<open>GrpcService\<close>
  constructor, and \<open>IllegalMetadataValue v\<close> is the error that \<open>grpc.Metadata.add\<close>
  throws for the value \<open>v\<close> (\<open>Metadata string value "v" contains illegal characters\<close>).
\<close>

datatype error =
  Timeout | EmptyToken | TransportError grpc_error | IllegalMetadataValue string

record IIAmCredentials =
  serviceAccountId :: string
  accessKeyId :: string
  privateKey :: Buffer
  iamEndpoint :: string

text \<open>
  \<open>ISslCredentials\<close> is declared in \<open>./utils\<close>; the auth services only store it and pass
  it on, so it is a type parameter \<open>'ssl\<close>. The client that the \<open>GrpcService\<close>
  constructor builds (\<open>this.api\<close>) is the type parameter \<open>'api\<close>.
\<close>

record 'ssl IAuthCredentials =
  sslCredentials :: 'ssl
  iamCredentials :: IIAmCredentials

text \<open>\<open>ICreateIamTokenResponse\<close>: only \<open>iamToken?: string|null\<close> is read.\<close>

record ICreateIamTokenResponse =
  iamToken :: "string option"

text \<open>The payload and the options that \<open>getJwtRequest\<close> gives to \<open>jwt.sign\<close>.\<close>

record jwt_payload =
  iss :: string
  aud :: string
  iat :: int
  exp :: int

record SignOptions =
  algorithm :: string
  keyid :: string

text \<open>
  \<open>jwt.sign(payload, secretOrPrivateKey, options)\<close> belongs to the library
  \<open>jsonwebtoken\<close>. The signed assertion is represented by the three arguments of that
  call.
\<close>

record jwt_sign =
  payload :: jwt_payload
  secretOrPrivateKey :: Buffer
  options :: SignOptions

subsection \<open>\<open>makeCredentialsMetadata\<close> and \<open>TokenAuthService\<close>\<close>

text \<open>
  \<open>grpc.Metadata.add(key, value)\<close> of the library \<open>grpc\<close>: for a key that does not end
  in \<open>-bin\<close> the value must be a string whose characters are all printable ASCII
  (the bytes \<open>0x20\<close> to \<open>0x7E\<close>; the empty string is legal), else the call throws.
  A legal value is appended to the entries. The only key in use is the literal
  \<open>x-ydb-auth-ticket\<close>, a legal lower-case key that does not end in \<open>-bin\<close>, so the
  check of the key always passes and is left out.
\<close>

definition metadataNonbinValueIsLegal :: "string \<Rightarrow> bool" where
  "metadataNonbinValueIsLegal v =
     list_all (\<lambda>c. 32 \<le> (of_char c :: nat) \<and> (of_char c :: nat) \<le> 126) v"

definition Metadata_add :: "string \<Rightarrow> string \<Rightarrow> Metadata \<Rightarrow> error + Metadata" where
  "Metadata_add k v metadata =
     (if metadataNonbinValueIsLegal v then Inr (metadata @ [(k, v)])
      else Inl (IllegalMetadataValue v))"

text \<open>An exception of \<open>metadata.add\<close> leaves \<open>makeCredentialsMetadata\<close> as it is.\<close>

definition makeCredentialsMetadata :: "string \<Rightarrow> error + Metadata" where
  "makeCredentialsMetadata tok = Metadata_add ''x-ydb-auth-ticket'' tok []"

text \<open>
  What one call of \<open>getAuthMetadata\<close> does: the value its promise settles with, the
  service afterwards, and the requests it gave to \<open>this.api.create\<close>.
\<close>

record 'svc outcome =
  result :: "error + Metadata"
  service_after :: 'svc
  requests :: "jwt_sign list"

record TokenAuthService =
  static_token :: string

definition TokenAuthService_getAuthMetadata ::
  "TokenAuthService \<Rightarrow> TokenAuthService outcome" where
  "TokenAuthService_getAuthMetadata this =
     \<lparr>result = makeCredentialsMetadata (static_token this),
      service_after = this, requests = []\<rparr>"

subsection \<open>\<open>IamAuthService\<close>\<close>

record ('ssl, 'api) IamAuthService =
  api :: 'api
  token :: string
  tokenTimestamp :: "int option"
  iamCredentials_of :: IIAmCredentials
  sslCredentials_of :: 'ssl

definition jwtExpirationTimeout :: int where
  "jwtExpirationTimeout = 3600 * 1000"

definition tokenExpirationTimeout :: int where
  "tokenExpirationTimeout = 120 * 1000"

definition tokenRequestTimeout :: int where
  "tokenRequestTimeout = 10 * 1000"

text \<open>
  The constructor. \<open>super(...)\<close> is the constructor of \<open>GrpcService\<close>, of \<open>./utils\<close>;
  it is the parameter \<open>grpcService\<close>, which gets the endpoint, the service name and
  the SSL credentials and returns the client or throws.
\<close>

definition IamAuthService_constructor ::
  "(string \<Rightarrow> string \<Rightarrow> 'ssl \<Rightarrow> error + 'api) \<Rightarrow> 'ssl IAuthCredentials
     \<Rightarrow> error + ('ssl, 'api) IamAuthService" where
  "IamAuthService_constructor grpcService authCredentials =
     (case grpcService (iamEndpoint (iamCredentials authCredentials))
             ''yandex.cloud.iam.v1.IamTokenService'' (sslCredentials authCredentials) of
        Inl e \<Rightarrow> Inl e
      | Inr client \<Rightarrow>
          Inr \<lparr>api = client, token = '''', tokenTimestamp = None,
               iamCredentials_of = iamCredentials authCredentials,
               sslCredentials_of = sslCredentials authCredentials\<rparr>)"

text \<open>
  Modelled from the spec: the constructor of \<open>GrpcService\<close> (in \<open>./utils\<close>) is not
  among the sources. The spec says that the transport layer validates its inputs
  lazily, that is, when the connection is used: the constructor accepts every
  endpoint and every transport-security material, and the client it returns is made
  of what it was given.
\<close>

definition GrpcService_constructor ::
  "string \<Rightarrow> string \<Rightarrow> 'ssl \<Rightarrow> error + string \<times> string \<times> 'ssl" where
  "GrpcService_constructor host name ssl = Inr (host, name, ssl)"

text \<open>
  \<open>Math.round(d.toSeconds())\<close> for a \<open>DateTime\<close> of epoch value \<open>ms\<close>:
  \<open>Math.round\<close> rounds to the nearest integer, a half towards \<open>+\<infinity>\<close>. Over the range
  of a \<open>DateTime\<close> the quotient \<open>ms / 1000\<close> in double precision lies on the same side
  of every half-integer as the exact quotient, so the integer formula is exact.
\<close>

definition round_toSeconds :: "int \<Rightarrow> int" where
  "round_toSeconds ms = (ms + 500) div 1000"

definition getJwtRequest :: "('ssl, 'api) IamAuthService \<Rightarrow> int \<Rightarrow> jwt_sign" where
  "getJwtRequest this now =
     (let expires = now + jwtExpirationTimeout;
          payload = \<lparr>iss = serviceAccountId (iamCredentials_of this),
                     aud = ''https://iam.api.cloud.yandex.net/iam/v1/tokens'',
                     iat = round_toSeconds now,
                     exp = round_toSeconds expires\<rparr>;
          options = \<lparr>algorithm = ''PS256'', keyid = accessKeyId (iamCredentials_of this)\<rparr>
      in \<lparr>payload = payload, secretOrPrivateKey = privateKey (iamCredentials_of this),
          options = options\<rparr>)"

text \<open>The getter \<open>expired\<close>; \<open>now\<close> is its reading of \<open>DateTime.utc()\<close>.\<close>

definition expired :: "('ssl, 'api) IamAuthService \<Rightarrow> int \<Rightarrow> bool" where
  "expired this now =
     (case tokenTimestamp this of
        None \<Rightarrow> True
      | Some ts \<Rightarrow> now - ts > tokenExpirationTimeout)"

subsection \<open>Promises\<close>

text \<open>A settled promise; a pending one is \<open>None\<close> of the option type.\<close>

datatype 'a settled = Fulfilled 'a | Rejected error

type_synonym 'a promise = "'a settled option"

text \<open>How \<open>this.api.create\<close> settles, when it does.\<close>

datatype api_result = Responds ICreateIamTokenResponse | Fails grpc_error

fun tokenPromise_settled :: "api_result \<Rightarrow> ICreateIamTokenResponse settled" where
  "tokenPromise_settled (Responds r) = Fulfilled r"
| "tokenPromise_settled (Fails e) = Rejected (TransportError e)"

text \<open>
  \<open>Promise.race\<close>: the race promise takes the state of the first input that settles
  and keeps it. \<open>race_settle p s\<close> is the race promise \<open>p\<close> after an input settled
  as \<open>s\<close>.
\<close>

fun race_settle :: "'a promise \<Rightarrow> 'a settled \<Rightarrow> 'a promise" where
  "race_settle None s = Some s"
| "race_settle (Some s0) s = Some s0"

subsection \<open>One call of \<open>getAuthMetadata\<close>, run to its end\<close>

text \<open>
  The behaviour of the exchange endpoint for one request: it settles
  \<open>d\<close> milliseconds after the timer of \<open>sendTokenRequest\<close> was armed, or never.
\<close>

datatype api_behaviour = Settles nat api_result | NeverSettles

text \<open>
  The environment of one call: the readings of \<open>DateTime.utc()\<close> in \<open>expired\<close>, in
  \<open>getJwtRequest\<close> and in \<open>updateToken\<close>, and the behaviour of the endpoint.
\<close>

record call_env =
  clock_expired :: int
  clock_jwt :: int
  exchange :: api_behaviour
  clock_update :: int

text \<open>
  The inputs of the race in the order in which they settle. The timer is armed before
  the request is sent and fires after \<open>tokenRequestTimeout\<close>; it is never cleared, so
  it also fires after a response. When both are due together the timer is taken
  first.
\<close>

fun settlements :: "api_behaviour \<Rightarrow> ICreateIamTokenResponse settled list" where
  "settlements NeverSettles = [Rejected Timeout]"
| "settlements (Settles d r) =
     (if int d < tokenRequestTimeout
      then [tokenPromise_settled r, Rejected Timeout]
      else [Rejected Timeout, tokenPromise_settled r])"

text \<open>
  \<open>sendTokenRequest\<close>: the race of the timer and the request, and the request sent.
\<close>

definition sendTokenRequest ::
  "('ssl, 'api) IamAuthService \<Rightarrow> int \<Rightarrow> api_behaviour
     \<Rightarrow> ICreateIamTokenResponse promise \<times> jwt_sign list" where
  "sendTokenRequest this now b =
     (foldl race_settle None (settlements b), [getJwtRequest this now])"

text \<open>
  \<open>updateToken\<close> after its \<open>await\<close>: \<open>r\<close> is what the race settled with, \<open>now\<close> the
  reading of \<open>DateTime.utc()\<close>. A string is truthy when it is not empty.
\<close>

fun updateToken_resume ::
  "('ssl, 'api) IamAuthService \<Rightarrow> int \<Rightarrow> ICreateIamTokenResponse settled
     \<Rightarrow> (error + unit) \<times> ('ssl, 'api) IamAuthService" where
  "updateToken_resume this now (Rejected e) = (Inl e, this)"
| "updateToken_resume this now (Fulfilled r) =
     (case iamToken r of
        None \<Rightarrow> (Inl EmptyToken, this)
      | Some tok \<Rightarrow>
          if tok \<noteq> ''''
          then (Inr (), this\<lparr>token := tok, tokenTimestamp := Some now\<rparr>)
          else (Inl EmptyToken, this))"

text \<open>
  \<open>updateToken\<close>. A race that never settles leaves the caller waiting: the result
  is \<open>None\<close>.
\<close>

definition updateToken ::
  "('ssl, 'api) IamAuthService \<Rightarrow> call_env
     \<Rightarrow> ((error + unit) \<times> ('ssl, 'api) IamAuthService \<times> jwt_sign list) option" where
  "updateToken this env =
     (case sendTokenRequest this (clock_jwt env) (exchange env) of
        (None, reqs) \<Rightarrow> None
      | (Some r, reqs) \<Rightarrow>
          (case updateToken_resume this (clock_update env) r of
             (res, this') \<Rightarrow> Some (res, this', reqs)))"

text \<open>\<open>getAuthMetadata\<close> after its \<open>await\<close>.\<close>

fun getAuthMetadata_resume ::
  "('ssl, 'api) IamAuthService \<Rightarrow> error + unit \<Rightarrow> error + Metadata" where
  "getAuthMetadata_resume this (Inl e) = Inl e"
| "getAuthMetadata_resume this (Inr u) = makeCredentialsMetadata (token this)"

definition getAuthMetadata ::
  "('ssl, 'api) IamAuthService \<Rightarrow> call_env
     \<Rightarrow> ('ssl, 'api) IamAuthService outcome option" where
  "getAuthMetadata this env =
     (if expired this (clock_expired env)
      then (case updateToken this env of
              None \<Rightarrow> None
            | Some (res, this', reqs) \<Rightarrow>
                Some \<lparr>result = getAuthMetadata_resume this' res,
                      service_after = this', requests = reqs\<rparr>)
      else Some \<lparr>result = makeCredentialsMetadata (token this),
                 service_after = this, requests = []\<rparr>)"

subsection \<open>Several calls in flight\<close>

text \<open>
  JavaScript runs one task at a time, each to its end; an \<open>async\<close> method gives up
  control only at an \<open>await\<close>. The service with its calls in flight is a state, and
  every piece of code that runs without interruption is one step on it:
  \<^item> \<open>Invoke\<close>: a caller calls \<open>getAuthMetadata\<close>. The code runs up to the \<open>await\<close> of
    \<open>sendTokenRequest\<close> (the timer is armed, the request is built and sent, a new
    race is pending), or, when the token is not expired, to the end;
  \<^item> \<open>TimerFires k\<close>, \<open>ApiSettles k r\<close>: an input of race number \<open>k\<close> settles. When the
    race was pending, \<open>updateToken\<close> resumes and runs to its end, and the
    continuation of \<open>getAuthMetadata\<close> is queued; when the race had settled already
    nothing is waiting for the input;
  \<^item> \<open>Continue\<close>: the oldest queued continuation of \<open>getAuthMetadata\<close> runs and the
    call reports to its caller.
  The last argument of a settling task is the reading of \<open>DateTime.utc()\<close> at that time.
\<close>

record ('ssl, 'api) system =
  service :: "('ssl, 'api) IamAuthService"
  races :: "ICreateIamTokenResponse promise list"
  sent :: "jwt_sign list"
  queued :: "(error + unit) list"
  reported :: "(error + Metadata) list"

datatype task =
    Invoke int int
  | TimerFires nat int
  | ApiSettles nat api_result int
  | Continue

definition settle ::
  "nat \<Rightarrow> ICreateIamTokenResponse settled \<Rightarrow> int \<Rightarrow> ('ssl, 'api) system
     \<Rightarrow> ('ssl, 'api) system" where
  "settle k s now c =
     (if k < length (races c)
      then (case races c ! k of
              Some s0 \<Rightarrow> c\<lparr>races := (races c)[k := race_settle (Some s0) s]\<rparr>
            | None \<Rightarrow>
                (case updateToken_resume (service c) now s of
                   (res, this') \<Rightarrow>
                     c\<lparr>service := this',
                       races := (races c)[k := race_settle None s],
                       queued := queued c @ [res]\<rparr>))
      else c)"

fun step :: "task \<Rightarrow> ('ssl, 'api) system \<Rightarrow> ('ssl, 'api) system" where
  "step (Invoke t_expired t_jwt) c =
     (if expired (service c) t_expired
      then c\<lparr>races := races c @ [None],
             sent := sent c @ [getJwtRequest (service c) t_jwt]\<rparr>
      else c\<lparr>reported := reported c @ [makeCredentialsMetadata (token (service c))]\<rparr>)"
| "step (TimerFires k now) c = settle k (Rejected Timeout) now c"
| "step (ApiSettles k r now) c = settle k (tokenPromise_settled r) now c"
| "step Continue c =
     (case queued c of
        [] \<Rightarrow> c
      | res # rest \<Rightarrow>
          c\<lparr>queued := rest,
            reported := reported c @ [getAuthMetadata_resume (service c) res]\<rparr>)"

fun run :: "task list \<Rightarrow> ('ssl, 'api) system \<Rightarrow> ('ssl, 'api) system" where
  "run [] c = c"
| "run (t # ts) c = run ts (step t c)"

definition start :: "('ssl, 'api) IamAuthService \<Rightarrow> ('ssl, 'api) system" where
  "start this = \<lparr>service = this, races = [], sent = [], queued = [], reported = []\<rparr>"

text \<open>
  The tasks of one call that runs alone, in the order that the behaviour of the
  endpoint gives them (as in \<open>settlements\<close>).
\<close>

fun tasks_of :: "call_env \<Rightarrow> task list" where
  "tasks_of env =
     Invoke (clock_expired env) (clock_jwt env) #
     (case exchange env of
        NeverSettles \<Rightarrow> [TimerFires 0 (clock_update env), Continue]
      | Settles d r \<Rightarrow>
          if int d < tokenRequestTimeout
          then [ApiSettles 0 r (clock_update env), Continue, TimerFires 0 (clock_update env)]
          else [TimerFires 0 (clock_update env), Continue, ApiSettles 0 r (clock_update env)])"

text \<open>A sequence of calls, each run to its end before the next one starts.\<close>

fun calls ::
  "('ssl, 'api) IamAuthService \<Rightarrow> call_env list
     \<Rightarrow> ('ssl, 'api) IamAuthService outcome list option" where
  "calls this [] = Some []"
| "calls this (env # envs) =
     (case getAuthMetadata this env of
        None \<Rightarrow> None
      | Some out \<Rightarrow>
          (case calls (service_after out) envs of
             None \<Rightarrow> None
           | Some outs \<Rightarrow> Some (out # outs)))"

text \<open>The same for the static service.\<close>

fun TokenAuthService_calls ::
  "TokenAuthService \<Rightarrow> nat \<Rightarrow> TokenAuthService outcome list" where
  "TokenAuthService_calls this 0 = []"
| "TokenAuthService_calls this (Suc n) =
     (let out = TokenAuthService_getAuthMetadata this
      in out # TokenAuthService_calls (service_after out) n)"

text \<open>
  The invariant of the state machine that the proofs use: a service with a timestamp
  has a non-empty token, so has a service for which a successful \<open>updateToken\<close> is
  waiting to be continued, and every metadata reported so far carries a non-empty
  token.
\<close>

definition credential_invariant :: "('ssl, 'api) system \<Rightarrow> bool" where
  "credential_invariant c \<longleftrightarrow>
     (tokenTimestamp (service c) \<noteq> None \<longrightarrow> token (service c) \<noteq> '''') \<and>
     (Inr () \<in> set (queued c) \<longrightarrow> token (service c) \<noteq> '''') \<and>
     (\<forall>md. Inr md \<in> set (reported c) \<longrightarrow>
        (\<exists>tok. tok \<noteq> '''' \<and> md = [(''x-ydb-auth-ticket'', tok)]))"

subsection \<open>Example values\<close>

definition example_credentials :: IIAmCredentials where
  "example_credentials =
     \<lparr>serviceAccountId = ''ajeexample'', accessKeyId = ''ajekey'',
      privateKey = [0x2D, 0x2D, 0x2D], iamEndpoint = ''iam.api.cloud.yandex.net:443''\<rparr>"

definition example_service :: "string \<Rightarrow> int option \<Rightarrow> (unit, unit) IamAuthService" where
  "example_service tok ts =
     \<lparr>api = (), token = tok, tokenTimestamp = ts,
      iamCredentials_of = example_credentials, sslCredentials_of = ()\<rparr>"

definition example_env :: "int \<Rightarrow> api_behaviour \<Rightarrow> call_env" where
  "example_env now b =
     \<lparr>clock_expired = now, clock_jwt = now + 1, exchange = b, clock_update = now + 250\<rparr>"

definition example_response :: "string option \<Rightarrow> api_result" where
  "example_response tok = Responds \<lparr>iamToken = tok\<rparr>"

section \<open>Properties\<close>

subsection \<open>Auxiliary facts\<close>

lemma sendTokenRequest_settles:
  "\<exists>r. sendTokenRequest this now b = (Some r, [getJwtRequest this now])"
  by (cases b) (simp_all add: sendTokenRequest_def)

lemma sendTokenRequest_in_time:
  "int d < tokenRequestTimeout \<Longrightarrow>
   sendTokenRequest this now (Settles d r) =
     (Some (tokenPromise_settled r), [getJwtRequest this now])"
  by (simp add: sendTokenRequest_def)

lemma sendTokenRequest_late:
  "\<not> int d < tokenRequestTimeout \<Longrightarrow>
   sendTokenRequest this now (Settles d r) =
     (Some (Rejected Timeout), [getJwtRequest this now])"
  by (simp add: sendTokenRequest_def)

lemma sendTokenRequest_never:
  "sendTokenRequest this now NeverSettles =
     (Some (Rejected Timeout), [getJwtRequest this now])"
  by (simp add: sendTokenRequest_def)

lemma getAuthMetadata_fresh:
  "\<not> expired this (clock_expired env) \<Longrightarrow>
   getAuthMetadata this env =
     Some \<lparr>result = makeCredentialsMetadata (token this),
           service_after = this, requests = []\<rparr>"
  by (simp add: getAuthMetadata_def)

lemma getAuthMetadata_stale:
  assumes "expired this (clock_expired env)"
    and "sendTokenRequest this (clock_jwt env) (exchange env) = (Some r, reqs)"
    and "updateToken_resume this (clock_update env) r = (res, this')"
  shows "getAuthMetadata this env =
     Some \<lparr>result = getAuthMetadata_resume this' res,
           service_after = this', requests = reqs\<rparr>"
  using assms by (simp add: getAuthMetadata_def updateToken_def)

lemma getAuthMetadata_returns: "\<exists>out. getAuthMetadata this env = Some out"
proof (cases "expired this (clock_expired env)")
  case True
  obtain r where r: "sendTokenRequest this (clock_jwt env) (exchange env)
      = (Some r, [getJwtRequest this (clock_jwt env)])"
    using sendTokenRequest_settles by blast
  obtain res this' where "updateToken_resume this (clock_update env) r = (res, this')"
    by (cases "updateToken_resume this (clock_update env) r")
  with True r show ?thesis
    using getAuthMetadata_stale by blast
next
  case False
  then show ?thesis by (simp add: getAuthMetadata_fresh)
qed

lemma getAuthMetadata_requests:
  "\<exists>out. getAuthMetadata this env = Some out \<and>
     requests out =
       (if expired this (clock_expired env) then [getJwtRequest this (clock_jwt env)] else [])"
proof (cases "expired this (clock_expired env)")
  case True
  obtain r where r: "sendTokenRequest this (clock_jwt env) (exchange env)
      = (Some r, [getJwtRequest this (clock_jwt env)])"
    using sendTokenRequest_settles by blast
  obtain res this' where "updateToken_resume this (clock_update env) r = (res, this')"
    by (cases "updateToken_resume this (clock_update env) r")
  with True r show ?thesis
    by (simp add: getAuthMetadata_stale)
next
  case False
  then show ?thesis by (simp add: getAuthMetadata_fresh)
qed

lemma expired_iff:
  "expired this now \<longleftrightarrow>
     tokenTimestamp this = None \<or>
     (\<exists>ts. tokenTimestamp this = Some ts \<and> 120 * 1000 < now - ts)"
  by (simp add: expired_def tokenExpirationTimeout_def split: option.splits)


lemma makeCredentialsMetadata_eq_Inr:
  "makeCredentialsMetadata tok = Inr md \<longleftrightarrow>
     metadataNonbinValueIsLegal tok \<and> md = [(''x-ydb-auth-ticket'', tok)]"
  "Inr md = makeCredentialsMetadata tok \<longleftrightarrow>
     metadataNonbinValueIsLegal tok \<and> md = [(''x-ydb-auth-ticket'', tok)]"
  by (auto simp add: makeCredentialsMetadata_def Metadata_add_def)

lemma makeCredentialsMetadata_Inl:
  "makeCredentialsMetadata tok = Inl e \<Longrightarrow> e = IllegalMetadataValue tok"
  by (simp add: makeCredentialsMetadata_def Metadata_add_def split: if_splits)

lemma sendTokenRequest_rejected:
  assumes "sendTokenRequest this now b = (Some (Rejected e), reqs)"
  shows "e = Timeout \<or> (\<exists>m. e = TransportError m)"
proof (cases b)
  case NeverSettles
  with assms show ?thesis by (simp add: sendTokenRequest_never)
next
  case (Settles d r)
  with assms show ?thesis
    by (cases r; cases "int d < tokenRequestTimeout")
      (auto simp add: sendTokenRequest_in_time sendTokenRequest_late)
qed

lemma round_toSeconds_expires:
  "round_toSeconds (now + jwtExpirationTimeout) = round_toSeconds now + 3600"
  by (simp add: round_toSeconds_def jwtExpirationTimeout_def)

lemma round_toSeconds_near:
  "now - 500 < 1000 * round_toSeconds now \<and> 1000 * round_toSeconds now \<le> now + 500"
proof -
  have "now + 500 = 1000 * ((now + 500) div 1000) + (now + 500) mod 1000"
    by simp
  moreover have "0 \<le> (now + 500) mod 1000" and "(now + 500) mod 1000 < 1000"
    by simp_all
  ultimately show ?thesis
    unfolding round_toSeconds_def by linarith
qed

lemma settle_late:
  assumes "k < length (races c)" and "races c ! k = Some s0"
  shows "settle k s now c = c"
proof -
  have "(races c)[k := Some s0] = races c"
    using list_update_id [of "races c" k] assms(2) by simp
  with assms show ?thesis
    by (simp add: settle_def)
qed

lemma settle_pending:
  "k < length (races c) \<Longrightarrow> races c ! k = None \<Longrightarrow>
   settle k s now c =
     c\<lparr>service := snd (updateToken_resume (service c) now s),
       races := (races c)[k := Some s],
       queued := queued c @ [fst (updateToken_resume (service c) now s)]\<rparr>"
  by (simp add: settle_def split: prod.splits)

lemma settle_races_length: "length (races (settle k s now c)) = length (races c)"
  by (simp add: settle_def split: option.splits prod.splits)

lemma settle_keeps_settled:
  "j < length (races c) \<Longrightarrow> races c ! j = Some s0 \<Longrightarrow>
   races (settle k s now c) ! j = Some s0"
  by (cases "j = k") (simp_all add: settle_def split: option.splits prod.splits)

lemma step_keeps_settled:
  assumes "j < length (races c)" and "races c ! j = Some s0"
  shows "j < length (races (step t c)) \<and> races (step t c) ! j = Some s0"
proof (cases t)
  case (Invoke t1 t2)
  with assms show ?thesis by (simp add: nth_append)
next
  case (TimerFires k now)
  with assms show ?thesis by (simp add: settle_races_length settle_keeps_settled)
next
  case (ApiSettles k r now)
  with assms show ?thesis by (simp add: settle_races_length settle_keeps_settled)
next
  case Continue
  with assms show ?thesis by (simp split: list.splits)
qed

lemma run_keeps_settled:
  "j < length (races c) \<Longrightarrow> races c ! j = Some s0 \<Longrightarrow>
   j < length (races (run ts c)) \<and> races (run ts c) ! j = Some s0"
proof (induction ts arbitrary: c)
  case Nil
  then show ?case by simp
next
  case (Cons t ts)
  from step_keeps_settled [OF Cons.prems, of t] Cons.IH [of "step t c"]
  show ?case by simp
qed

text \<open>
  Once the timer of a pending race has fired, the result of its request changes
  nothing, whatever ran in between.
\<close>

lemma late_result_ignored:
  assumes "k < length (races c)" and "races c ! k = None"
  shows "step (ApiSettles k r now') (run ts (step (TimerFires k now) c)) =
     run ts (step (TimerFires k now) c)"
proof -
  let ?c1 = "step (TimerFires k now) c"
  have "k < length (races ?c1) \<and> races ?c1 ! k = Some (Rejected Timeout)"
    using assms by (simp add: settle_pending)
  then have "k < length (races (run ts ?c1)) \<and>
      races (run ts ?c1) ! k = Some (Rejected Timeout)"
    using run_keeps_settled by blast
  then show ?thesis
    by (simp add: settle_late)
qed

text \<open>
  A call that runs alone: its tasks, run on the state machine, end with the outcome of
  \<open>getAuthMetadata\<close>, also after the input that lost the race has settled.
\<close>

lemma run_tasks_of:
  assumes "getAuthMetadata this env = Some out"
  shows "service (run (tasks_of env) (start this)) = service_after out \<and>
     sent (run (tasks_of env) (start this)) = requests out \<and>
     queued (run (tasks_of env) (start this)) = [] \<and>
     reported (run (tasks_of env) (start this)) = [result out]"
proof (cases "expired this (clock_expired env)")
  case False
  with assms have "out = \<lparr>result = makeCredentialsMetadata (token this),
           service_after = this, requests = []\<rparr>"
    by (simp add: getAuthMetadata_fresh)
  with False show ?thesis
    by (simp add: start_def settle_def split: api_behaviour.splits)
next
  case True
  show ?thesis
  proof (cases "exchange env")
    case NeverSettles
    with True assms show ?thesis
      by (auto simp add: start_def settle_def getAuthMetadata_def updateToken_def
          sendTokenRequest_never)
  next
    case (Settles d r)
    show ?thesis
    proof (cases "int d < tokenRequestTimeout")
      case late: False
      with True Settles assms show ?thesis
        by (auto simp add: start_def settle_def getAuthMetadata_def updateToken_def
            sendTokenRequest_late)
    next
      case in_time: True
      obtain res this' where
        resume: "updateToken_resume this (clock_update env) (tokenPromise_settled r)
          = (res, this')"
        by (cases "updateToken_resume this (clock_update env) (tokenPromise_settled r)")
      with True Settles in_time assms show ?thesis
        by (auto simp add: start_def settle_def getAuthMetadata_def updateToken_def
            sendTokenRequest_in_time)
    qed
  qed
qed

lemma updateToken_resume_cases:
  assumes "updateToken_resume this now s = (res, this')"
  shows "(this' = this \<and> (\<exists>e. res = Inl e)) \<or>
     (\<exists>r tok. s = Fulfilled r \<and> iamToken r = Some tok \<and> tok \<noteq> '''' \<and> res = Inr () \<and>
        this' = this\<lparr>token := tok, tokenTimestamp := Some now\<rparr>)"
  using assms by (cases s) (auto split: option.splits if_splits)

lemma settle_cases:
  "(service (settle k s now c) = service c \<and> reported (settle k s now c) = reported c \<and>
      (queued (settle k s now c) = queued c \<or>
       (\<exists>e. queued (settle k s now c) = queued c @ [Inl e]))) \<or>
   (\<exists>r tok. s = Fulfilled r \<and> iamToken r = Some tok \<and> tok \<noteq> '''' \<and>
      service (settle k s now c) = (service c)\<lparr>token := tok, tokenTimestamp := Some now\<rparr> \<and>
      reported (settle k s now c) = reported c \<and>
      queued (settle k s now c) = queued c @ [Inr ()])"
proof (cases "k < length (races c) \<and> races c ! k = None")
  case True
  obtain res this' where r: "updateToken_resume (service c) now s = (res, this')"
    by (cases "updateToken_resume (service c) now s")
  from True r have "settle k s now c =
     c\<lparr>service := this', races := (races c)[k := Some s], queued := queued c @ [res]\<rparr>"
    by (simp add: settle_pending)
  with updateToken_resume_cases [OF r] show ?thesis
    by auto
next
  case False
  then show ?thesis
    by (auto simp add: settle_def split: option.splits)
qed

lemma step_pair:
  "(token (service (step t c)) = token (service c) \<and>
    tokenTimestamp (service (step t c)) = tokenTimestamp (service c)) \<or>
   (\<exists>k r now tok. t = ApiSettles k (Responds r) now \<and> iamToken r = Some tok \<and> tok \<noteq> '''' \<and>
      token (service (step t c)) = tok \<and> tokenTimestamp (service (step t c)) = Some now)"
proof (cases t)
  case (Invoke t1 t2)
  then show ?thesis by simp
next
  case (TimerFires k now)
  with settle_cases [of k "Rejected Timeout" now c] show ?thesis by auto
next
  case (ApiSettles k r now)
  show ?thesis
  proof (cases r)
    case (Responds resp)
    with ApiSettles settle_cases [of k "Fulfilled resp" now c] show ?thesis by auto
  next
    case (Fails e)
    with ApiSettles settle_cases [of k "Rejected (TransportError e)" now c] show ?thesis by auto
  qed
next
  case Continue
  then show ?thesis by (simp split: list.splits)
qed

lemma run_pair:
  "(token (service (run ts c)) = token (service c) \<and>
    tokenTimestamp (service (run ts c)) = tokenTimestamp (service c)) \<or>
   (\<exists>k r now tok. ApiSettles k (Responds r) now \<in> set ts \<and> iamToken r = Some tok \<and>
      tok \<noteq> '''' \<and>
      token (service (run ts c)) = tok \<and> tokenTimestamp (service (run ts c)) = Some now)"
proof (induction ts arbitrary: c)
  case Nil
  then show ?case by simp
next
  case (Cons t ts)
  from Cons.IH [of "step t c"] step_pair [of t c] show ?case
    by (simp del: step.simps) metis
qed

lemma step_failed:
  assumes "queued (step t c) = queued c @ [Inl e]"
  shows "service (step t c) = service c"
proof (cases t)
  case (Invoke t1 t2)
  then show ?thesis by simp
next
  case (TimerFires k now)
  with assms settle_cases [of k "Rejected Timeout" now c] show ?thesis by auto
next
  case (ApiSettles k r now)
  with assms settle_cases [of k "tokenPromise_settled r" now c] show ?thesis by auto
next
  case Continue
  then show ?thesis by (simp split: list.splits)
qed

text \<open>
  The three ways a call ends: the token was fresh; the refresh failed; the refresh
  installed a token.
\<close>

lemma getAuthMetadata_cases:
  assumes "getAuthMetadata this env = Some out"
  shows "(\<not> expired this (clock_expired env) \<and> service_after out = this \<and>
        result out = makeCredentialsMetadata (token this)) \<or>
     (expired this (clock_expired env) \<and> service_after out = this \<and>
        (\<exists>e. result out = Inl e \<and>
           (e = Timeout \<or> e = EmptyToken \<or> (\<exists>m. e = TransportError m)))) \<or>
     (\<exists>tok. tok \<noteq> '''' \<and> expired this (clock_expired env) \<and>
        service_after out = this\<lparr>token := tok, tokenTimestamp := Some (clock_update env)\<rparr> \<and>
        result out = makeCredentialsMetadata tok)"
proof (cases "expired this (clock_expired env)")
  case False
  with assms show ?thesis
    by (auto simp add: getAuthMetadata_fresh)
next
  case True
  obtain r where r: "sendTokenRequest this (clock_jwt env) (exchange env)
      = (Some r, [getJwtRequest this (clock_jwt env)])"
    using sendTokenRequest_settles by blast
  obtain res this' where res: "updateToken_resume this (clock_update env) r = (res, this')"
    by (cases "updateToken_resume this (clock_update env) r")
  from getAuthMetadata_stale [OF True r res] assms
  have out: "out = \<lparr>result = getAuthMetadata_resume this' res,
           service_after = this', requests = [getJwtRequest this (clock_jwt env)]\<rparr>"
    by simp
  show ?thesis
  proof (cases r)
    case (Rejected e)
    with sendTokenRequest_rejected r have "e = Timeout \<or> (\<exists>m. e = TransportError m)"
      by blast
    with Rejected res True out show ?thesis
      by auto
  next
    case (Fulfilled resp)
    with res True out show ?thesis
      by (auto split: option.splits if_splits)
  qed
qed

lemma step_invariant:
  assumes "credential_invariant c"
  shows "credential_invariant (step t c)"
proof (cases t)
  case (Invoke t1 t2)
  show ?thesis
  proof (cases "expired (service c) t1")
    case True
    with Invoke assms show ?thesis
      by (simp add: credential_invariant_def)
  next
    case False
    then have "tokenTimestamp (service c) \<noteq> None"
      by (auto simp add: expired_def split: option.splits)
    with assms have "token (service c) \<noteq> ''''"
      by (simp add: credential_invariant_def)
    with Invoke False assms show ?thesis
      by (auto simp add: credential_invariant_def makeCredentialsMetadata_eq_Inr)
  qed
next
  case (TimerFires k now)
  with assms settle_cases [of k "Rejected Timeout" now c] show ?thesis
    by (auto simp add: credential_invariant_def)
next
  case (ApiSettles k r now)
  with assms settle_cases [of k "tokenPromise_settled r" now c] show ?thesis
    by (auto simp add: credential_invariant_def)
next
  case Continue
  show ?thesis
  proof (cases "queued c")
    case Nil
    with Continue assms show ?thesis by simp
  next
    case (Cons res rest)
    show ?thesis
    proof (cases res)
      case (Inl e)
      with Continue Cons assms show ?thesis
        by (auto simp add: credential_invariant_def)
    next
      case (Inr u)
      with Cons assms have "token (service c) \<noteq> ''''"
        by (simp add: credential_invariant_def)
      with Continue Cons Inr assms show ?thesis
        by (auto simp add: credential_invariant_def makeCredentialsMetadata_eq_Inr)
    qed
  qed
qed

lemma run_invariant:
  "credential_invariant c \<Longrightarrow> credential_invariant (run ts c)"
  by (induction ts arbitrary: c) (simp_all add: step_invariant del: step.simps)

lemma calls_invariant:
  assumes "tokenTimestamp this \<noteq> None \<longrightarrow> token this \<noteq> ''''"
  shows "\<exists>outs. calls this envs = Some outs \<and> length outs = length envs \<and>
     (\<forall>out \<in> set outs.
        (tokenTimestamp (service_after out) \<noteq> None \<longrightarrow> token (service_after out) \<noteq> '''') \<and>
        (\<forall>md. result out = Inr md \<longrightarrow>
           (\<exists>tok. tok \<noteq> '''' \<and> md = [(''x-ydb-auth-ticket'', tok)])))"
  using assms
proof (induction envs arbitrary: this)
  case Nil
  then show ?case by simp
next
  case (Cons env envs)
  obtain out where out: "getAuthMetadata this env = Some out"
    using getAuthMetadata_returns by blast
  have fresh: "\<not> expired this (clock_expired env) \<Longrightarrow> token this \<noteq> ''''"
    using Cons.prems by (auto simp add: expired_def split: option.splits)
  from getAuthMetadata_cases [OF out] Cons.prems fresh
  have here: "(tokenTimestamp (service_after out) \<noteq> None \<longrightarrow>
        token (service_after out) \<noteq> '''') \<and>
      (\<forall>md. result out = Inr md \<longrightarrow>
         (\<exists>tok. tok \<noteq> '''' \<and> md = [(''x-ydb-auth-ticket'', tok)]))"
    by (auto simp add: makeCredentialsMetadata_eq_Inr)
  then obtain outs where outs: "calls (service_after out) envs = Some outs"
    "length outs = length envs"
    "\<forall>out \<in> set outs.
        (tokenTimestamp (service_after out) \<noteq> None \<longrightarrow> token (service_after out) \<noteq> '''') \<and>
        (\<forall>md. result out = Inr md \<longrightarrow>
           (\<exists>tok. tok \<noteq> '''' \<and> md = [(''x-ydb-auth-ticket'', tok)]))"
    using Cons.IH [of "service_after out"] by blast
  from out outs(1) have "calls this (env # envs) = Some (out # outs)"
    by simp
  with here outs(2,3) show ?case
    by simp
qed

subsection \<open>The staleness check\<close>

text \<open>
  Claim C1. In \<open>getAuthMetadata\<close> of the refreshing service the staleness check is true
  exactly when no token was ever issued (\<open>tokenTimestamp\<close> is null) or the time since
  \<open>tokenTimestamp\<close> exceeds 120 seconds; the call returns, and it sends an exchange
  request (one) exactly when the check is true.
\<close>

theorem C1_staleness_check:
  "(expired this (clock_expired env) \<longleftrightarrow>
      tokenTimestamp this = None \<or>
      (\<exists>ts. tokenTimestamp this = Some ts \<and> 120 * 1000 < clock_expired env - ts)) \<and>
   (\<exists>out. getAuthMetadata this env = Some out \<and>
      requests out =
        (if expired this (clock_expired env)
         then [getJwtRequest this (clock_jwt env)] else []))"
  using expired_iff [of this "clock_expired env"] getAuthMetadata_requests [of this env]
  by blast

theorem C1_staleness_check_witness:
  "expired (example_service ''t1'' (Some 1000)) 121001 \<and>
   \<not> expired (example_service ''t1'' (Some 1000)) 121000 \<and>
   expired (example_service [] None) 0"
  using C1_staleness_check [of "example_service ''t1'' (Some 1000)" "example_env 121001 NeverSettles"]
    C1_staleness_check [of "example_service ''t1'' (Some 1000)" "example_env 121000 NeverSettles"]
    C1_staleness_check [of "example_service [] None" "example_env 0 NeverSettles"]
  by (simp add: example_service_def example_env_def)

subsection \<open>Calls while the token is fresh\<close>



subsection \<open>The signed assertion\<close>

text \<open>
  Claim C6. The assertion that \<open>getJwtRequest\<close> builds at the time \<open>now\<close> has the
  service account id as issuer, the fixed audience URI, the current time in seconds
  (rounded, so at most half a second away from \<open>now\<close>) as issued-at and issued-at plus
  3600 as expiry, and is signed with PS256 under the private key and the key id of
  the credentials. It is the assertion that a refresh sends. Two assertions of one
  service differ in issued-at and expiry only.
\<close>

theorem C6_signed_assertion:
  "getJwtRequest this now =
     \<lparr>payload = \<lparr>iss = serviceAccountId (iamCredentials_of this),
                 aud = ''https://iam.api.cloud.yandex.net/iam/v1/tokens'',
                 iat = round_toSeconds now,
                 exp = round_toSeconds now + 3600\<rparr>,
      secretOrPrivateKey = privateKey (iamCredentials_of this),
      options = \<lparr>algorithm = ''PS256'', keyid = accessKeyId (iamCredentials_of this)\<rparr>\<rparr> \<and>
   now - 500 < 1000 * iat (payload (getJwtRequest this now)) \<and>
   1000 * iat (payload (getJwtRequest this now)) \<le> now + 500 \<and>
   getJwtRequest this now' =
     (getJwtRequest this now)
       \<lparr>payload := (payload (getJwtRequest this now))
          \<lparr>iat := round_toSeconds now', exp := round_toSeconds now' + 3600\<rparr>\<rparr> \<and>
   (\<exists>out. getAuthMetadata this env = Some out \<and>
      requests out =
        (if expired this (clock_expired env)
         then [getJwtRequest this (clock_jwt env)] else []))"
proof -
  have eq: "getJwtRequest this t =
     \<lparr>payload = \<lparr>iss = serviceAccountId (iamCredentials_of this),
                 aud = ''https://iam.api.cloud.yandex.net/iam/v1/tokens'',
                 iat = round_toSeconds t,
                 exp = round_toSeconds t + 3600\<rparr>,
      secretOrPrivateKey = privateKey (iamCredentials_of this),
      options = \<lparr>algorithm = ''PS256'', keyid = accessKeyId (iamCredentials_of this)\<rparr>\<rparr>"
    for t
    by (simp add: getJwtRequest_def Let_def round_toSeconds_expires)
  have near: "now - 500 < 1000 * iat (payload (getJwtRequest this now)) \<and>
      1000 * iat (payload (getJwtRequest this now)) \<le> now + 500"
    using round_toSeconds_near [of now] by (simp add: eq)
  have diff: "getJwtRequest this now' =
     (getJwtRequest this now)
       \<lparr>payload := (payload (getJwtRequest this now))
          \<lparr>iat := round_toSeconds now', exp := round_toSeconds now' + 3600\<rparr>\<rparr>"
    by (simp add: eq)
  from eq [of now] near diff getAuthMetadata_requests [of this env]
  show ?thesis by blast
qed

theorem C6_signed_assertion_witness:
  "getJwtRequest (example_service [] None) 1600000000499 =
     \<lparr>payload = \<lparr>iss = ''ajeexample'',
                 aud = ''https://iam.api.cloud.yandex.net/iam/v1/tokens'',
                 iat = 1600000000, exp = 1600003600\<rparr>,
      secretOrPrivateKey = [0x2D, 0x2D, 0x2D],
      options = \<lparr>algorithm = ''PS256'', keyid = ''ajekey''\<rparr>\<rparr> \<and>
   getJwtRequest (example_service [] None) 1600000001500 =
     \<lparr>payload = \<lparr>iss = ''ajeexample'',
                 aud = ''https://iam.api.cloud.yandex.net/iam/v1/tokens'',
                 iat = 1600000002, exp = 1600003602\<rparr>,
      secretOrPrivateKey = [0x2D, 0x2D, 0x2D],
      options = \<lparr>algorithm = ''PS256'', keyid = ''ajekey''\<rparr>\<rparr>"
  using C6_signed_assertion [of "example_service [] None" 1600000000499 1600000001500
      "example_env 0 NeverSettles"]
    C6_signed_assertion [of "example_service [] None" 1600000001500 1600000001500
      "example_env 0 NeverSettles"]
  by (simp add: example_service_def example_credentials_def round_toSeconds_def)

subsection \<open>The static service\<close>

text \<open>
  Claim C8, as stated, fails: the token is given to \<open>grpc.Metadata.add\<close> unchecked,
  and the library rejects a value with a character outside printable ASCII. For the
  token of the three characters \<open>a\<close>, line feed, \<open>b\<close> the call fails.
\<close>

theorem C8_counterexample:
  "TokenAuthService_calls \<lparr>static_token = [CHR ''a'', CHR 0x0A, CHR ''b'']\<rparr> 1 =
     [\<lparr>result = Inl (IllegalMetadataValue [CHR ''a'', CHR 0x0A, CHR ''b'']),
       service_after = \<lparr>static_token = [CHR ''a'', CHR 0x0A, CHR ''b'']\<rparr>,
       requests = []\<rparr>]"
  by (simp add: TokenAuthService_getAuthMetadata_def makeCredentialsMetadata_def
      Metadata_add_def metadataNonbinValueIsLegal_def)

text \<open>
  Claim C8, amended. For the static service built with a token, any number \<open>n\<close> of
  calls of \<open>getAuthMetadata\<close> gives \<open>n\<close> times the same outcome, with no request sent
  and the service unchanged. When all characters of the token are printable ASCII
  (\<open>0x20\<close> to \<open>0x7E\<close>; the empty token included) the outcome is the metadata with
  that token under the header \<open>x-ydb-auth-ticket\<close>, never an error; for any other
  token every call fails with the error of \<open>grpc.Metadata.add\<close>.
\<close>

theorem C8_static_token:
  "TokenAuthService_calls \<lparr>static_token = tok\<rparr> n =
     replicate n
       \<lparr>result =
          (if list_all (\<lambda>c. 32 \<le> (of_char c :: nat) \<and> (of_char c :: nat) \<le> 126) tok
           then Inr [(''x-ydb-auth-ticket'', tok)]
           else Inl (IllegalMetadataValue tok)),
        service_after = \<lparr>static_token = tok\<rparr>, requests = []\<rparr>"
  by (induction n)
    (simp_all add: TokenAuthService_getAuthMetadata_def makeCredentialsMetadata_def
      Metadata_add_def metadataNonbinValueIsLegal_def Let_def)

theorem C8_static_token_witness:
  "TokenAuthService_calls \<lparr>static_token = ''abc123''\<rparr> 3 =
     [\<lparr>result = Inr [(''x-ydb-auth-ticket'', ''abc123'')],
       service_after = \<lparr>static_token = ''abc123''\<rparr>, requests = []\<rparr>,
      \<lparr>result = Inr [(''x-ydb-auth-ticket'', ''abc123'')],
       service_after = \<lparr>static_token = ''abc123''\<rparr>, requests = []\<rparr>,
      \<lparr>result = Inr [(''x-ydb-auth-ticket'', ''abc123'')],
       service_after = \<lparr>static_token = ''abc123''\<rparr>, requests = []\<rparr>] \<and>
   TokenAuthService_calls \<lparr>static_token = [CHR 0x7F]\<rparr> 2 =
     [\<lparr>result = Inl (IllegalMetadataValue [CHR 0x7F]),
       service_after = \<lparr>static_token = [CHR 0x7F]\<rparr>, requests = []\<rparr>,
      \<lparr>result = Inl (IllegalMetadataValue [CHR 0x7F]),
       service_after = \<lparr>static_token = [CHR 0x7F]\<rparr>, requests = []\<rparr>]"
  using C8_static_token [of "''abc123''" 3] C8_static_token [of "[CHR 0x7F]" 2]
  by (simp add: numeral_3_eq_3 numeral_2_eq_2)

subsection \<open>An empty token\<close>

text \<open>
  Claim C3. The token is stale and the endpoint answers within the timeout, with a
  response that has no token or an empty one. Then \<open>getAuthMetadata\<close> fails with
  \<open>EmptyToken\<close> and the service, with \<open>token\<close> and \<open>tokenTimestamp\<close>, is as before:
  a next call behaves as it would have on the service before the attempt.
\<close>

theorem C3_empty_token:
  assumes "expired this (clock_expired env)"
    and "exchange env = Settles d (Responds r)"
    and "int d < 10 * 1000"
    and "iamToken r = None \<or> iamToken r = Some ''''"
  shows "getAuthMetadata this env =
     Some \<lparr>result = Inl EmptyToken, service_after = this,
           requests = [getJwtRequest this (clock_jwt env)]\<rparr> \<and>
     calls this [env, env'] =
       map_option
         (\<lambda>out'. [\<lparr>result = Inl EmptyToken, service_after = this,
                    requests = [getJwtRequest this (clock_jwt env)]\<rparr>, out'])
         (getAuthMetadata this env')"
proof -
  have sent: "sendTokenRequest this (clock_jwt env) (exchange env) =
      (Some (Fulfilled r), [getJwtRequest this (clock_jwt env)])"
    using assms(2,3) by (simp add: sendTokenRequest_in_time tokenRequestTimeout_def)
  have "updateToken_resume this (clock_update env) (Fulfilled r) = (Inl EmptyToken, this)"
    using assms(4) by auto
  with assms(1) sent have one: "getAuthMetadata this env =
     Some \<lparr>result = Inl EmptyToken, service_after = this,
           requests = [getJwtRequest this (clock_jwt env)]\<rparr>"
    by (simp add: getAuthMetadata_stale)
  then show ?thesis
    by (cases "getAuthMetadata this env'") simp_all
qed

theorem C3_empty_token_witness:
  "getAuthMetadata (example_service ''t1'' (Some 1000))
       (example_env 200000 (Settles 5 (example_response (Some '''')))) =
     Some \<lparr>result = Inl EmptyToken, service_after = example_service ''t1'' (Some 1000),
           requests = [getJwtRequest (example_service ''t1'' (Some 1000)) 200001]\<rparr>"
proof -
  let ?svc = "example_service ''t1'' (Some 1000)"
  let ?env = "example_env 200000 (Settles 5 (example_response (Some '''')))"
  have stale: "expired ?svc (clock_expired ?env)"
    by (simp add: expired_def example_service_def example_env_def tokenExpirationTimeout_def)
  have answer: "exchange ?env = Settles 5 (Responds \<lparr>iamToken = Some ''''\<rparr>)"
    by (simp add: example_env_def example_response_def)
  have in_time: "int 5 < 10 * 1000"
    by simp
  have empty: "iamToken \<lparr>iamToken = Some ''''\<rparr> = None \<or>
      iamToken \<lparr>iamToken = Some ''''\<rparr> = Some ''''"
    by simp
  have jwt: "clock_jwt ?env = 200001"
    by (simp add: example_env_def)
  from C3_empty_token [OF stale answer in_time empty, THEN conjunct1]
  show ?thesis by (simp only: jwt)
qed

subsection \<open>The call after the threshold\<close>

text \<open>
  Claim C7, as stated, fails on the boundary: when the clock is exactly 120 seconds
  past \<open>tokenTimestamp\<close> the check \<open>expired\<close> is false (the comparison is strict) and
  the call sends no request.
\<close>

theorem C7_counterexample:
  "tokenTimestamp (example_service ''t1'' (Some 1000)) = Some 1000 \<and>
   120 * 1000 \<le>
     clock_expired (example_env 121000 (Settles 5 (example_response (Some ''t2'')))) - 1000 \<and>
   getAuthMetadata (example_service ''t1'' (Some 1000))
       (example_env 121000 (Settles 5 (example_response (Some ''t2'')))) =
     Some \<lparr>result = Inr [(''x-ydb-auth-ticket'', ''t1'')],
           service_after = example_service ''t1'' (Some 1000), requests = []\<rparr>"
  by (simp add: example_service_def example_env_def getAuthMetadata_def expired_def
      tokenExpirationTimeout_def makeCredentialsMetadata_def Metadata_add_def
      metadataNonbinValueIsLegal_def)

text \<open>
  Claim C7, amended. The service holds a token issued at \<open>ts\<close>. The next call of
  \<open>getAuthMetadata\<close> returns, and it sends exactly one exchange request when the clock
  is more than 120 seconds past \<open>ts\<close>, and none otherwise (none at exactly 120
  seconds).
\<close>

theorem C7_stale_call:
  assumes "tokenTimestamp this = Some ts"
  shows "\<exists>out. getAuthMetadata this env = Some out \<and>
     requests out =
       (if 120 * 1000 < clock_expired env - ts
        then [getJwtRequest this (clock_jwt env)] else [])"
  using assms getAuthMetadata_requests [of this env] expired_iff [of this "clock_expired env"]
  by auto

theorem C7_stale_call_witness:
  "\<exists>out. getAuthMetadata (example_service ''t1'' (Some 1000))
       (example_env 121001 (Settles 5 (example_response (Some ''t2'')))) = Some out \<and>
     requests out = [getJwtRequest (example_service ''t1'' (Some 1000)) 121002]"
proof -
  let ?svc = "example_service ''t1'' (Some 1000)"
  have issued: "tokenTimestamp ?svc = Some 1000"
    by (simp add: example_service_def)
  from C7_stale_call [OF issued,
      of "example_env 121001 (Settles 5 (example_response (Some ''t2'')))"]
  show ?thesis by (simp add: example_env_def)
qed

subsection \<open>Construction\<close>

text \<open>
  Claim C9, as stated, fails: the constructor checks nothing. With an empty account
  id, an empty key id and an empty private key the construction succeeds.
\<close>

theorem C9_counterexample:
  "IamAuthService_constructor GrpcService_constructor
     \<lparr>sslCredentials = (),
      iamCredentials = \<lparr>serviceAccountId = '''', accessKeyId = '''', privateKey = [],
                        iamEndpoint = ''iam.api.cloud.yandex.net:443''\<rparr>\<rparr> =
   Inr \<lparr>api = (''iam.api.cloud.yandex.net:443'', ''yandex.cloud.iam.v1.IamTokenService'', ()),
        token = '''', tokenTimestamp = None,
        iamCredentials_of = \<lparr>serviceAccountId = '''', accessKeyId = '''', privateKey = [],
                        iamEndpoint = ''iam.api.cloud.yandex.net:443''\<rparr>,
        sslCredentials_of = ()\<rparr>"
  by (simp add: IamAuthService_constructor_def GrpcService_constructor_def)

text \<open>
  Claim C9, amended. The constructor of the refreshing service validates nothing
  itself. It gives the endpoint and the transport-security material to the
  constructor of the transport layer and fails exactly when that one fails; whether
  it fails does not depend on the account id, the key id and the private key, which
  are stored as given. The new service has an empty token and no timestamp.
\<close>

theorem C9_construction:
  "isl (IamAuthService_constructor grpcService a) =
     isl (grpcService (iamEndpoint (iamCredentials a)) ''yandex.cloud.iam.v1.IamTokenService''
           (sslCredentials a)) \<and>
   isl (IamAuthService_constructor grpcService
         (a\<lparr>iamCredentials := (iamCredentials a)
              \<lparr>serviceAccountId := sid, accessKeyId := kid, privateKey := key\<rparr>\<rparr>)) =
     isl (IamAuthService_constructor grpcService a) \<and>
   (\<forall>this. IamAuthService_constructor grpcService a = Inr this \<longrightarrow>
      iamCredentials_of this = iamCredentials a \<and> sslCredentials_of this = sslCredentials a \<and>
      token this = '''' \<and> tokenTimestamp this = None)"
  by (auto simp add: IamAuthService_constructor_def split: sum.splits)

theorem C9_construction_witness:
  "IamAuthService_constructor GrpcService_constructor
     \<lparr>sslCredentials = (), iamCredentials = example_credentials\<rparr> =
   Inr \<lparr>api = (''iam.api.cloud.yandex.net:443'', ''yandex.cloud.iam.v1.IamTokenService'', ()),
        token = '''', tokenTimestamp = None,
        iamCredentials_of = example_credentials, sslCredentials_of = ()\<rparr> \<and>
   \<not> isl (IamAuthService_constructor GrpcService_constructor
     \<lparr>sslCredentials = (), iamCredentials = example_credentials\<rparr>) \<and>
   \<not> isl (IamAuthService_constructor GrpcService_constructor
     \<lparr>sslCredentials = (),
      iamCredentials = example_credentials
        \<lparr>serviceAccountId := '''', accessKeyId := '''', privateKey := []\<rparr>\<rparr>)"
  using C9_construction [of GrpcService_constructor
      "\<lparr>sslCredentials = (), iamCredentials = example_credentials\<rparr>" "''''" "''''" "[]"]
  by (simp add: IamAuthService_constructor_def GrpcService_constructor_def
      example_credentials_def)

subsection \<open>The request timeout\<close>

text \<open>
  Claim C4. The token is stale and the exchange does not complete within the 10
  seconds of the request timeout (it settles later, or never). Then \<open>getAuthMetadata\<close>
  fails with \<open>Timeout\<close> and leaves the service as it was; when the call runs on the
  state machine, the service is still as it was after the late result has arrived,
  and \<open>Timeout\<close> is all that was reported. In general, once the timer of a pending
  race has fired, the late result of its request (a response or a failure) changes
  nothing in the state, whatever tasks ran in between.
\<close>

theorem C4_timeout:
  assumes "expired this (clock_expired env)"
    and "case exchange env of NeverSettles \<Rightarrow> True | Settles d r \<Rightarrow> 10 * 1000 < int d"
  shows "getAuthMetadata this env =
       Some \<lparr>result = Inl Timeout, service_after = this,
             requests = [getJwtRequest this (clock_jwt env)]\<rparr> \<and>
     service (run (tasks_of env) (start this)) = this \<and>
     reported (run (tasks_of env) (start this)) = [Inl Timeout] \<and>
     (k < length (races c) \<and> races c ! k = None \<longrightarrow>
        step (ApiSettles k r' now') (run ts (step (TimerFires k now) c)) =
          run ts (step (TimerFires k now) c))"
proof -
  have "sendTokenRequest this (clock_jwt env) (exchange env) =
      (Some (Rejected Timeout), [getJwtRequest this (clock_jwt env)])"
    using assms(2)
    by (cases "exchange env")
      (simp_all add: sendTokenRequest_never sendTokenRequest_late tokenRequestTimeout_def)
  with assms(1) have out: "getAuthMetadata this env =
       Some \<lparr>result = Inl Timeout, service_after = this,
             requests = [getJwtRequest this (clock_jwt env)]\<rparr>"
    by (simp add: getAuthMetadata_stale)
  from run_tasks_of [OF out] late_result_ignored [of k c r' now' ts now] out
  show ?thesis by simp
qed

theorem C4_timeout_witness:
  "getAuthMetadata (example_service ''t1'' (Some 1000))
       (example_env 200000 (Settles 15000 (example_response (Some ''t2'')))) =
     Some \<lparr>result = Inl Timeout, service_after = example_service ''t1'' (Some 1000),
           requests = [getJwtRequest (example_service ''t1'' (Some 1000)) 200001]\<rparr> \<and>
   service (run [Invoke 200000 200001, TimerFires 0 210000, Continue,
                 ApiSettles 0 (example_response (Some ''t2'')) 215000]
             (start (example_service ''t1'' (Some 1000)))) =
     example_service ''t1'' (Some 1000) \<and>
   step (ApiSettles 0 (example_response (Some ''t2'')) 215000)
     (run [Continue] (step (TimerFires 0 210000)
        (step (Invoke 200000 200001) (start (example_service ''t1'' (Some 1000)))))) =
   run [Continue] (step (TimerFires 0 210000)
        (step (Invoke 200000 200001) (start (example_service ''t1'' (Some 1000)))))"
proof -
  let ?svc = "example_service ''t1'' (Some 1000)"
  let ?env = "example_env 200000 (Settles 15000 (example_response (Some ''t2'')))"
  let ?c = "step (Invoke 200000 200001) (start ?svc)"
  have stale: "expired ?svc (clock_expired ?env)"
    by (simp add: expired_def example_service_def example_env_def tokenExpirationTimeout_def)
  have late: "case exchange ?env of NeverSettles \<Rightarrow> True | Settles d r \<Rightarrow> 10 * 1000 < int d"
    by (simp add: example_env_def)
  have jwt: "clock_jwt ?env = 200001"
    by (simp add: example_env_def)
  have pending: "0 < length (races ?c) \<and> races ?c ! 0 = None"
    by (simp add: start_def expired_def example_service_def tokenExpirationTimeout_def)
  have whole: "service (run [Invoke 200000 200001, TimerFires 0 210000, Continue,
                 ApiSettles 0 (example_response (Some ''t2'')) 215000] (start ?svc)) = ?svc"
    by (simp add: start_def settle_def expired_def example_service_def example_response_def
        tokenExpirationTimeout_def)
  from C4_timeout [OF stale late, of 0 ?c "example_response (Some ''t2'')" 215000
      "[Continue]" 210000] pending whole
  show ?thesis by (simp only: jwt)
qed

subsection \<open>Token and timestamp change together\<close>

text \<open>
  Claim C5. In every execution of the refreshing service, with any calls in flight,
  \<open>token\<close> and \<open>tokenTimestamp\<close> are at every moment either both as they were at the
  start, or both the values that one and the same successful exchange installed
  (its non-empty token and the clock reading of its \<open>updateToken\<close>). A step in which
  a refresh fails leaves the service as it was. For a call run to its end:
  it returns, and either the service is unchanged, or its refresh set both fields; a
  call that fails with an error of the refresh (\<open>Timeout\<close>, \<open>EmptyToken\<close>, a transport
  error) leaves the service unchanged. For the refresh \<open>updateToken\<close> itself: it
  returns, it sets both fields or none, and when it fails the service is unchanged.
\<close>

theorem C5_updated_together:
  "((token (service (run ts c)) = token (service c) \<and>
     tokenTimestamp (service (run ts c)) = tokenTimestamp (service c)) \<or>
    (\<exists>k r now tok. ApiSettles k (Responds r) now \<in> set ts \<and> iamToken r = Some tok \<and>
       tok \<noteq> '''' \<and>
       token (service (run ts c)) = tok \<and> tokenTimestamp (service (run ts c)) = Some now)) \<and>
   (queued (step t c) = queued c @ [Inl e] \<longrightarrow> service (step t c) = service c) \<and>
   (\<exists>out. getAuthMetadata this env = Some out \<and>
      (service_after out = this \<or>
       (\<exists>tok. tok \<noteq> '''' \<and> result out = makeCredentialsMetadata tok \<and>
          service_after out = this\<lparr>token := tok, tokenTimestamp := Some (clock_update env)\<rparr>)) \<and>
      (\<forall>e'. result out = Inl e' \<and>
         (e' = Timeout \<or> e' = EmptyToken \<or> (\<exists>m. e' = TransportError m)) \<longrightarrow>
         service_after out = this)) \<and>
   (\<exists>res this' reqs. updateToken this env = Some (res, this', reqs) \<and>
      (this' = this \<or>
       (\<exists>tok. tok \<noteq> '''' \<and> res = Inr () \<and>
          this' = this\<lparr>token := tok, tokenTimestamp := Some (clock_update env)\<rparr>)) \<and>
      (isl res \<longrightarrow> this' = this))"
proof -
  obtain out where out: "getAuthMetadata this env = Some out"
    using getAuthMetadata_returns by blast
  have illegal: "makeCredentialsMetadata tok = Inl e' \<Longrightarrow>
      \<not> (e' = Timeout \<or> e' = EmptyToken \<or> (\<exists>m. e' = TransportError m))" for tok e'
    by (auto dest: makeCredentialsMetadata_Inl)
  from getAuthMetadata_cases [OF out]
  have call: "(service_after out = this \<or>
       (\<exists>tok. tok \<noteq> '''' \<and> result out = makeCredentialsMetadata tok \<and>
          service_after out = this\<lparr>token := tok, tokenTimestamp := Some (clock_update env)\<rparr>)) \<and>
      (\<forall>e'. result out = Inl e' \<and>
         (e' = Timeout \<or> e' = EmptyToken \<or> (\<exists>m. e' = TransportError m)) \<longrightarrow>
         service_after out = this)"
    using illegal by metis
  obtain r where r: "sendTokenRequest this (clock_jwt env) (exchange env)
      = (Some r, [getJwtRequest this (clock_jwt env)])"
    using sendTokenRequest_settles by blast
  obtain res this' where res: "updateToken_resume this (clock_update env) r = (res, this')"
    by (cases "updateToken_resume this (clock_update env) r")
  from r res have upd: "updateToken this env =
      Some (res, this', [getJwtRequest this (clock_jwt env)])"
    by (simp add: updateToken_def)
  from updateToken_resume_cases [OF res]
  have "(this' = this \<or>
       (\<exists>tok. tok \<noteq> '''' \<and> res = Inr () \<and>
          this' = this\<lparr>token := tok, tokenTimestamp := Some (clock_update env)\<rparr>)) \<and>
      (isl res \<longrightarrow> this' = this)"
    by auto
  with upd have refresh: "\<exists>res this' reqs. updateToken this env = Some (res, this', reqs) \<and>
      (this' = this \<or>
       (\<exists>tok. tok \<noteq> '''' \<and> res = Inr () \<and>
          this' = this\<lparr>token := tok, tokenTimestamp := Some (clock_update env)\<rparr>)) \<and>
      (isl res \<longrightarrow> this' = this)"
    by blast
  from out call refresh run_pair [of ts c] step_failed [of t c e] show ?thesis
    by blast
qed

theorem C5_updated_together_witness:
  "queued (step (TimerFires 0 10000) (step (Invoke 0 1) (start (example_service [] None)))) =
     queued (step (Invoke 0 1) (start (example_service [] None))) @ [Inl Timeout] \<and>
   service (step (TimerFires 0 10000) (step (Invoke 0 1) (start (example_service [] None)))) =
     service (step (Invoke 0 1) (start (example_service [] None))) \<and>
   token (service (run [Invoke 0 1, ApiSettles 0 (example_response (Some ''t2'')) 250, Continue]
     (start (example_service [] None)))) = ''t2'' \<and>
   tokenTimestamp (service (run [Invoke 0 1, ApiSettles 0 (example_response (Some ''t2'')) 250,
     Continue] (start (example_service [] None)))) = Some 250"
proof -
  let ?c = "step (Invoke 0 1) (start (example_service [] None))"
  have failed: "queued (step (TimerFires 0 10000) ?c) = queued ?c @ [Inl Timeout]"
    by (simp add: start_def settle_def expired_def example_service_def)
  have run: "token (service (run [Invoke 0 1, ApiSettles 0 (example_response (Some ''t2'')) 250,
        Continue] (start (example_service [] None)))) = ''t2'' \<and>
      tokenTimestamp (service (run [Invoke 0 1, ApiSettles 0 (example_response (Some ''t2'')) 250,
        Continue] (start (example_service [] None)))) = Some 250"
    by (simp add: start_def settle_def expired_def example_service_def example_response_def)
  from C5_updated_together [of "[]" ?c "TimerFires 0 10000" Timeout
      "example_service [] None" "example_env 0 NeverSettles"] failed
  have "service (step (TimerFires 0 10000) ?c) = service ?c"
    by blast
  with failed run show ?thesis
    by blast
qed

subsection \<open>The token of a successful call is not empty\<close>

text \<open>
  Claim C10. For a service that the constructor built: in every execution, with any
  calls in flight, a service with a timestamp has a non-empty token, and every
  metadata reported to a caller carries a non-empty token under
  \<open>x-ydb-auth-ticket\<close>. The same for calls run one after the other, each of which
  returns. The first call sends an exchange request: the empty token of the new
  service is never returned.
\<close>

theorem C10_credential_never_empty:
  assumes "IamAuthService_constructor grpcService a = Inr this"
  shows "(tokenTimestamp (service (run ts (start this))) \<noteq> None \<longrightarrow>
        token (service (run ts (start this))) \<noteq> '''') \<and>
     (\<forall>md. Inr md \<in> set (reported (run ts (start this))) \<longrightarrow>
        (\<exists>tok. tok \<noteq> '''' \<and> md = [(''x-ydb-auth-ticket'', tok)])) \<and>
     (\<exists>outs. calls this envs = Some outs \<and> length outs = length envs \<and>
        (\<forall>out \<in> set outs.
           (tokenTimestamp (service_after out) \<noteq> None \<longrightarrow>
              token (service_after out) \<noteq> '''') \<and>
           (\<forall>md. result out = Inr md \<longrightarrow>
              (\<exists>tok. tok \<noteq> '''' \<and> md = [(''x-ydb-auth-ticket'', tok)])))) \<and>
     (\<exists>out. getAuthMetadata this env = Some out \<and>
        requests out = [getJwtRequest this (clock_jwt env)])"
proof -
  from assms have init: "token this = ''''" "tokenTimestamp this = None"
    by (auto simp add: IamAuthService_constructor_def split: sum.splits)
  then have "credential_invariant (start this)"
    by (simp add: credential_invariant_def start_def)
  then have "credential_invariant (run ts (start this))"
    by (rule run_invariant)
  then have sys: "(tokenTimestamp (service (run ts (start this))) \<noteq> None \<longrightarrow>
        token (service (run ts (start this))) \<noteq> '''') \<and>
     (\<forall>md. Inr md \<in> set (reported (run ts (start this))) \<longrightarrow>
        (\<exists>tok. tok \<noteq> '''' \<and> md = [(''x-ydb-auth-ticket'', tok)]))"
    by (simp add: credential_invariant_def)
  have "expired this (clock_expired env)"
    using init by (simp add: expired_def)
  with getAuthMetadata_requests [of this env]
  have first: "\<exists>out. getAuthMetadata this env = Some out \<and>
        requests out = [getJwtRequest this (clock_jwt env)]"
    by simp
  from init have "tokenTimestamp this \<noteq> None \<longrightarrow> token this \<noteq> ''''"
    by simp
  from calls_invariant [OF this, of envs] sys first show ?thesis
    by blast
qed

theorem C10_credential_never_empty_witness:
  "IamAuthService_constructor GrpcService_constructor
     \<lparr>sslCredentials = (), iamCredentials = example_credentials\<rparr> =
   Inr \<lparr>api = (''iam.api.cloud.yandex.net:443'', ''yandex.cloud.iam.v1.IamTokenService'', ()),
        token = '''', tokenTimestamp = None,
        iamCredentials_of = example_credentials, sslCredentials_of = ()\<rparr> \<and>
   reported (run [Invoke 0 1, ApiSettles 0 (example_response (Some ''t2'')) 250, Continue,
                  Invoke 300 301]
     (start \<lparr>api = (''iam.api.cloud.yandex.net:443'', ''yandex.cloud.iam.v1.IamTokenService'', ()),
        token = '''', tokenTimestamp = None,
        iamCredentials_of = example_credentials, sslCredentials_of = ()\<rparr>)) =
   [Inr [(''x-ydb-auth-ticket'', ''t2'')], Inr [(''x-ydb-auth-ticket'', ''t2'')]]"
proof -
  let ?svc = "\<lparr>api = (''iam.api.cloud.yandex.net:443'', ''yandex.cloud.iam.v1.IamTokenService'', ()),
        token = '''', tokenTimestamp = None,
        iamCredentials_of = example_credentials, sslCredentials_of = ()\<rparr>"
  let ?ts = "[Invoke 0 1, ApiSettles 0 (example_response (Some ''t2'')) 250, Continue,
      Invoke 300 301]"
  have built: "IamAuthService_constructor GrpcService_constructor
     \<lparr>sslCredentials = (), iamCredentials = example_credentials\<rparr> = Inr ?svc"
    by (simp add: IamAuthService_constructor_def GrpcService_constructor_def
        example_credentials_def)
  have run: "reported (run ?ts (start ?svc)) =
      [Inr [(''x-ydb-auth-ticket'', ''t2'')], Inr [(''x-ydb-auth-ticket'', ''t2'')]]"
    by (simp add: start_def settle_def expired_def example_response_def
        tokenExpirationTimeout_def makeCredentialsMetadata_def Metadata_add_def
        metadataNonbinValueIsLegal_def)
  from C10_credential_never_empty [OF built, of ?ts "[]" "example_env 0 NeverSettles"] built run
  show ?thesis by blast
qed

end
